theory Spec2Isabelle
  imports Complex_Main
begin

section \<open>JavaScript values\<close>

text \<open>
  The tee-time server is written in JavaScript. Upstream JSON bodies are untyped, and the
  normalisation code relies on truthiness (\<^verbatim>\<open>a || b\<close>), on \<^verbatim>\<open>parseFloat\<close> and on
  \<^verbatim>\<open>parseInt\<close>, so the values are modelled as they are at run time.

  A number is a finite value, \<^verbatim>\<open>NaN\<close> or an infinity. Finite values are rationals: the code
  performs no arithmetic on them, only parsing and comparison, so rounding to a double and
  the sign of zero are not modelled.
\<close>

datatype js_number = Fin rat | NaN | PosInf | NegInf

datatype js_value =
    JUndefined
  | JNull
  | JBool bool
  | JNum js_number
  | JStr string
  | JArr "js_value list"
  | JObj "(string \<times> js_value) list"

datatype error = TypeError | RedisError | HttpError | BrowserError | RenderTimeout | EvaluateError

text \<open>\<^verbatim>\<open>ToBoolean\<close>: the falsy values are undefined, null, false, 0, NaN and the empty string.\<close>

fun truthy :: "js_value \<Rightarrow> bool" where
  "truthy JUndefined = False"
| "truthy JNull = False"
| "truthy (JBool b) = b"
| "truthy (JNum (Fin r)) = (r \<noteq> 0)"
| "truthy (JNum NaN) = False"
| "truthy (JNum PosInf) = True"
| "truthy (JNum NegInf) = True"
| "truthy (JStr s) = (s \<noteq> [])"
| "truthy (JArr xs) = True"
| "truthy (JObj fs) = True"

text \<open>\<^verbatim>\<open>a || b\<close> yields \<^verbatim>\<open>a\<close> when it is truthy and \<^verbatim>\<open>b\<close> otherwise.\<close>

definition js_or :: "js_value \<Rightarrow> js_value \<Rightarrow> js_value" where
  "js_or a b = (if truthy a then a else b)"

text \<open>
  Property read \<^verbatim>\<open>v.k\<close>. Reading a property of undefined or null throws a TypeError; an
  object yields its own property or undefined. The property names the server reads
  (\<^verbatim>\<open>time\<close>, \<^verbatim>\<open>price\<close>, \<^verbatim>\<open>tee_times\<close>, ...) are not defined on the prototypes of strings,
  numbers, booleans or arrays, so those yield undefined.
\<close>

fun get_prop :: "js_value \<Rightarrow> string \<Rightarrow> error + js_value" where
  "get_prop JUndefined k = Inl TypeError"
| "get_prop JNull k = Inl TypeError"
| "get_prop (JObj fs) k = Inr (case map_of fs k of None \<Rightarrow> JUndefined | Some v \<Rightarrow> v)"
| "get_prop v k = Inr JUndefined"

text \<open>Optional chaining \<^verbatim>\<open>v?.k\<close>: undefined when \<^verbatim>\<open>v\<close> is undefined or null.\<close>

fun get_prop_opt :: "js_value \<Rightarrow> string \<Rightarrow> js_value" where
  "get_prop_opt (JObj fs) k = (case map_of fs k of None \<Rightarrow> JUndefined | Some v \<Rightarrow> v)"
| "get_prop_opt v k = JUndefined"

subsection \<open>Characters and digit strings\<close>

definition is_digit :: "char \<Rightarrow> bool" where
  "is_digit c = (c \<in> set ''0123456789'')"

definition digit_val :: "char \<Rightarrow> nat" where
  "digit_val c =
     (case map_of (zip ''0123456789'' [0, 1, 2, 3, 4, 5, 6, 7, 8, 9]) c of
        None \<Rightarrow> 0 | Some d \<Rightarrow> d)"

definition is_hex_digit :: "char \<Rightarrow> bool" where
  "is_hex_digit c = (c \<in> set ''0123456789abcdefABCDEF'')"

definition hex_val :: "char \<Rightarrow> nat" where
  "hex_val c =
     (case map_of (zip ''abcdefABCDEF'' [10, 11, 12, 13, 14, 15, 10, 11, 12, 13, 14, 15]) c of
        None \<Rightarrow> digit_val c | Some d \<Rightarrow> d)"

text \<open>The value of a digit string in base \<open>b\<close>, most significant digit first.\<close>

definition radix_value :: "nat \<Rightarrow> string \<Rightarrow> nat" where
  "radix_value b ds = foldl (\<lambda>a c. b * a + hex_val c) 0 ds"

definition dec_value :: "string \<Rightarrow> nat" where
  "dec_value ds = radix_value 10 ds"

text \<open>
  White space skipped by \<^verbatim>\<open>parseFloat\<close>, \<^verbatim>\<open>parseInt\<close> and \<^verbatim>\<open>trim\<close>: tab, line feed,
  vertical tab, form feed, carriage return and space (strings are byte strings here; the
  non-ASCII space characters are not recognised).
\<close>

definition is_space :: "char \<Rightarrow> bool" where
  "is_space c = (c \<in> set [CHR 0x09, CHR 0x0A, CHR 0x0B, CHR 0x0C, CHR 0x0D, CHR '' ''])"

definition js_trim :: "string \<Rightarrow> string" where
  "js_trim s = rev (dropWhile is_space (rev (dropWhile is_space s)))"

fun starts_with :: "string \<Rightarrow> string \<Rightarrow> bool" where
  "starts_with [] s = True"
| "starts_with (p # ps) [] = False"
| "starts_with (p # ps) (c # cs) = (p = c \<and> starts_with ps cs)"

subsection \<open>parseFloat and parseInt\<close>

text \<open>
  \<^verbatim>\<open>parseFloat\<close> on a string: skip leading white space, then read the longest prefix
  that is a decimal literal (optional sign; \<^verbatim>\<open>Infinity\<close>, or digits with an optional
  fraction and an optional exponent). With no such prefix the result is NaN.
\<close>

text \<open>The exponent part: \<^verbatim>\<open>e\<close> or \<^verbatim>\<open>E\<close>, an optional sign and at least one digit; otherwise 0.\<close>

definition exponent_of :: "string \<Rightarrow> int" where
  "exponent_of s =
     (case s of
        [] \<Rightarrow> 0
      | c # r \<Rightarrow>
          if c = CHR ''e'' \<or> c = CHR ''E'' then
            (case r of
               [] \<Rightarrow> 0
             | d # r' \<Rightarrow>
                 if d = CHR ''-'' then - int (dec_value (takeWhile is_digit r'))
                 else if d = CHR ''+'' then int (dec_value (takeWhile is_digit r'))
                 else int (dec_value (takeWhile is_digit r)))
          else 0)"

definition scale10 :: "rat \<Rightarrow> int \<Rightarrow> rat" where
  "scale10 r e = (if 0 \<le> e then r * 10 ^ nat e else r / 10 ^ nat (- e))"

text \<open>The unsigned part of a decimal literal; \<open>None\<close> when the text does not start with one.\<close>

definition unsigned_decimal :: "string \<Rightarrow> js_number option" where
  "unsigned_decimal s =
     (if starts_with ''Infinity'' s then Some PosInf
      else
        let ip = takeWhile is_digit s; r1 = dropWhile is_digit s in
        if starts_with ''.'' r1 then
          (let fp = takeWhile is_digit (drop 1 r1); r3 = dropWhile is_digit (drop 1 r1) in
           if ip = [] \<and> fp = [] then None
           else Some (Fin (scale10
                  (of_nat (dec_value ip) + of_nat (dec_value fp) / 10 ^ length fp)
                  (exponent_of r3))))
        else if ip = [] then None
        else Some (Fin (scale10 (of_nat (dec_value ip)) (exponent_of r1))))"

fun negate :: "js_number \<Rightarrow> js_number" where
  "negate (Fin r) = Fin (- r)"
| "negate NaN = NaN"
| "negate PosInf = NegInf"
| "negate NegInf = PosInf"

definition parseFloat_str :: "string \<Rightarrow> js_number" where
  "parseFloat_str s =
     (case dropWhile is_space s of
        [] \<Rightarrow> NaN
      | c # r \<Rightarrow>
          if c = CHR ''-'' then (case unsigned_decimal r of None \<Rightarrow> NaN | Some n \<Rightarrow> negate n)
          else if c = CHR ''+'' then (case unsigned_decimal r of None \<Rightarrow> NaN | Some n \<Rightarrow> n)
          else (case unsigned_decimal (c # r) of None \<Rightarrow> NaN | Some n \<Rightarrow> n))"

text \<open>
  \<^verbatim>\<open>parseInt\<close> on a string, called without a radix: skip leading white space, read an
  optional sign, take base 16 after a \<^verbatim>\<open>0x\<close> or \<^verbatim>\<open>0X\<close> prefix and base 10 otherwise, and
  read digits as long as they are valid. With no digit the result is NaN.
\<close>

definition unsigned_integer :: "string \<Rightarrow> js_number" where
  "unsigned_integer s =
     (if starts_with ''0x'' s \<or> starts_with ''0X'' s then
        (let ds = takeWhile is_hex_digit (drop 2 s)
         in if ds = [] then NaN else Fin (of_nat (radix_value 16 ds)))
      else
        (let ds = takeWhile is_digit s
         in if ds = [] then NaN else Fin (of_nat (dec_value ds))))"

definition parseInt_str :: "string \<Rightarrow> js_number" where
  "parseInt_str s =
     (case dropWhile is_space s of
        [] \<Rightarrow> NaN
      | c # r \<Rightarrow>
          if c = CHR ''-'' then negate (unsigned_integer r)
          else if c = CHR ''+'' then unsigned_integer r
          else unsigned_integer (c # r))"

text \<open>
  Both functions first convert their argument to a string. For a number that conversion
  followed by the parse gives the number back (\<^verbatim>\<open>parseFloat\<close>) or its integer part
  (\<^verbatim>\<open>parseInt\<close>; exact for magnitudes from \<open>10\<^sup>-\<^sup>6\<close> up to \<open>10\<^sup>2\<^sup>1\<close>, where the
  conversion uses no exponent). An array converts to its elements joined by commas, so
  the parse sees the first element only. undefined, null, booleans and objects convert to
  words that start with no digit.
\<close>

fun parseFloat :: "js_value \<Rightarrow> js_number" where
  "parseFloat (JNum n) = n"
| "parseFloat (JStr s) = parseFloat_str s"
| "parseFloat (JArr (x # xs)) = parseFloat x"
| "parseFloat v = NaN"

fun parseInt :: "js_value \<Rightarrow> js_number" where
  "parseInt (JNum (Fin r)) = Fin (of_int (if 0 \<le> r then \<lfloor>r\<rfloor> else \<lceil>r\<rceil>))"
| "parseInt (JStr s) = parseInt_str s"
| "parseInt (JArr (x # xs)) = parseInt x"
| "parseInt v = NaN"

section \<open>Tee-time slots and their JSON form\<close>

text \<open>
  A slot is the object literal the scrapers build. \<^verbatim>\<open>price\<close>, \<^verbatim>\<open>availableSlots\<close> and
  \<^verbatim>\<open>holes\<close> are only ever assigned a result of \<^verbatim>\<open>parseFloat\<close> or \<^verbatim>\<open>parseInt\<close>, a
  number literal or \<^verbatim>\<open>null\<close>, or are left out of the literal (\<open>Missing\<close>); \<^verbatim>\<open>time\<close> and
  \<^verbatim>\<open>isHotDeal\<close> can carry any upstream value.
\<close>

datatype num_field = Missing | Null | Num js_number

record tee_time =
  time :: js_value
  price :: num_field
  availableSlots :: num_field
  holes :: num_field
  isHotDeal :: js_value

text \<open>
  \<^verbatim>\<open>JSON.parse(JSON.stringify(v))\<close>: NaN and the infinities are written as \<^verbatim>\<open>null\<close>, an
  undefined array element is written as \<^verbatim>\<open>null\<close>, and a property whose value is undefined
  is left out (reading it back gives undefined again).
\<close>

fun json_value :: "js_value \<Rightarrow> js_value"
  and json_elems :: "js_value list \<Rightarrow> js_value list"
  and json_props :: "(string \<times> js_value) list \<Rightarrow> (string \<times> js_value) list" where
  "json_value JUndefined = JNull"
| "json_value JNull = JNull"
| "json_value (JBool b) = JBool b"
| "json_value (JNum (Fin r)) = JNum (Fin r)"
| "json_value (JNum NaN) = JNull"
| "json_value (JNum PosInf) = JNull"
| "json_value (JNum NegInf) = JNull"
| "json_value (JStr s) = JStr s"
| "json_value (JArr xs) = JArr (json_elems xs)"
| "json_value (JObj fs) = JObj (json_props fs)"
| "json_elems [] = []"
| "json_elems (x # xs) = json_value x # json_elems xs"
| "json_props [] = []"
| "json_props ((k, v) # fs) =
     (if v = JUndefined then json_props fs else (k, json_value v) # json_props fs)"

definition json_prop :: "js_value \<Rightarrow> js_value" where
  "json_prop v = (if v = JUndefined then JUndefined else json_value v)"

fun json_number :: "num_field \<Rightarrow> num_field" where
  "json_number Missing = Missing"
| "json_number Null = Null"
| "json_number (Num (Fin r)) = Num (Fin r)"
| "json_number (Num n) = Null"

definition json_slot :: "tee_time \<Rightarrow> tee_time" where
  "json_slot t =
     \<lparr> time = json_prop (time t), price = json_number (price t),
       availableSlots = json_number (availableSlots t), holes = json_number (holes t),
       isHotDeal = json_prop (isHotDeal t) \<rparr>"

text \<open>
  The text written by \<^verbatim>\<open>JSON.stringify(teeTimes)\<close> is represented by the slots that
  \<^verbatim>\<open>JSON.parse\<close> reads back from it. The text of an array is never the empty string, so
  the test \<^verbatim>\<open>if (cachedData)\<close> on it succeeds.
\<close>

datatype json_text = JsonText "tee_time list"

definition JSON_stringify :: "tee_time list \<Rightarrow> json_text" where
  "JSON_stringify ts = JsonText (map json_slot ts)"

fun JSON_parse :: "json_text \<Rightarrow> tee_time list" where
  "JSON_parse (JsonText ts) = ts"

section \<open>Normalisation of upstream records\<close>

text \<open>
  Inside the \<^verbatim>\<open>map\<close> callbacks every field is read from the same \<^verbatim>\<open>slot\<close>; the first
  read throws a TypeError when the element is undefined or null, and no read throws
  otherwise.
\<close>

definition nullish :: "js_value \<Rightarrow> bool" where
  "nullish v = (v = JUndefined \<or> v = JNull)"

fun map_slots :: "(js_value \<Rightarrow> error + tee_time) \<Rightarrow> js_value list \<Rightarrow> error + tee_time list" where
  "map_slots f [] = Inr []"
| "map_slots f (x # xs) =
     (case f x of
        Inl e \<Rightarrow> Inl e
      | Inr t \<Rightarrow> (case map_slots f xs of Inl e \<Rightarrow> Inl e | Inr ts \<Rightarrow> Inr (t # ts)))"

subsection \<open>ForeUpScraper (both server files)\<close>

definition ForeUp_slot :: "js_value \<Rightarrow> error + tee_time" where
  "ForeUp_slot slot =
     (if nullish slot then Inl TypeError
      else Inr
        \<lparr> time = js_or (get_prop_opt slot ''time'') (get_prop_opt slot ''start_time''),
          price = Num (parseFloat
            (js_or (js_or (get_prop_opt slot ''green_fee'') (get_prop_opt slot ''price''))
               (JNum (Fin 50)))),
          availableSlots = Num (parseInt
            (js_or (js_or (get_prop_opt slot ''available_spots'')
               (get_prop_opt slot ''max_players'')) (JNum (Fin 4)))),
          holes = Num (parseInt (js_or (get_prop_opt slot ''holes'') (JNum (Fin 18)))),
          isHotDeal = JBool (get_prop_opt slot ''special'' = JBool True
                             \<or> get_prop_opt slot ''is_special'' = JBool True) \<rparr>)"

text \<open>\<^verbatim>\<open>response.data.map(...).filter(time => time.time)\<close>: only an array has \<^verbatim>\<open>map\<close>.\<close>

definition ForeUp_parse :: "js_value \<Rightarrow> error + tee_time list" where
  "ForeUp_parse data =
     (case data of
        JArr xs \<Rightarrow>
          (case map_slots ForeUp_slot xs of
             Inl e \<Rightarrow> Inl e
           | Inr ts \<Rightarrow> Inr (filter (\<lambda>t. truthy (time t)) ts))
      | _ \<Rightarrow> Inl TypeError)"

subsection \<open>ChronogolfScraper of server.js\<close>

definition Chronogolf_slot :: "js_value \<Rightarrow> error + tee_time" where
  "Chronogolf_slot slot =
     (if nullish slot then Inl TypeError
      else Inr
        \<lparr> time = get_prop_opt slot ''start_time'',
          price = Num (parseFloat (js_or (get_prop_opt slot ''green_fee'') (JNum (Fin 50)))),
          availableSlots = Num (parseInt
            (js_or (get_prop_opt slot ''nb_bookable_slots'') (JNum (Fin 4)))),
          holes = Num (parseInt (js_or (get_prop_opt slot ''nb_holes'') (JNum (Fin 18)))),
          isHotDeal = js_or (get_prop_opt slot ''is_deal'') (JBool False) \<rparr>)"

text \<open>\<^verbatim>\<open>response.data.tee_times?.map(...) || []\<close>; this variant has no \<^verbatim>\<open>filter\<close>.\<close>

definition Chronogolf_parse :: "js_value \<Rightarrow> error + tee_time list" where
  "Chronogolf_parse data =
     (case get_prop data ''tee_times'' of
        Inl e \<Rightarrow> Inl e
      | Inr tt \<Rightarrow>
          if nullish tt then Inr []
          else (case tt of JArr xs \<Rightarrow> map_slots Chronogolf_slot xs | _ \<Rightarrow> Inl TypeError))"

subsection \<open>ChronogolfScraper of the second server file\<close>

definition Chronogolf_slot_p1 :: "js_value \<Rightarrow> error + tee_time" where
  "Chronogolf_slot_p1 slot =
     (if nullish slot then Inl TypeError
      else Inr
        \<lparr> time = js_or (get_prop_opt slot ''start_time'') (get_prop_opt slot ''time''),
          price = Num (parseFloat
            (js_or (js_or (js_or (get_prop_opt (get_prop_opt slot ''rate'') ''price'')
               (get_prop_opt slot ''price'')) (get_prop_opt slot ''green_fee''))
               (JNum (Fin 50)))),
          availableSlots = Num (parseInt
            (js_or (js_or (get_prop_opt slot ''available_spots'')
               (get_prop_opt slot ''remaining_spots'')) (JNum (Fin 4)))),
          holes = Num (parseInt
            (js_or (js_or (get_prop_opt slot ''holes'') (get_prop_opt slot ''nb_holes''))
               (JNum (Fin 18)))),
          isHotDeal = js_or (js_or (get_prop_opt slot ''is_deal'')
                        (get_prop_opt slot ''special_rate'')) (JBool False) \<rparr>)"

text \<open>\<^verbatim>\<open>(response.data.tee_times || response.data).map(...).filter(time => time.time)\<close>\<close>

definition Chronogolf_parse_p1 :: "js_value \<Rightarrow> error + tee_time list" where
  "Chronogolf_parse_p1 data =
     (case get_prop data ''tee_times'' of
        Inl e \<Rightarrow> Inl e
      | Inr tt \<Rightarrow>
          (case js_or tt data of
             JArr xs \<Rightarrow>
               (case map_slots Chronogolf_slot_p1 xs of
                  Inl e \<Rightarrow> Inl e
                | Inr ts \<Rightarrow> Inr (filter (\<lambda>t. truthy (time t)) ts))
           | _ \<Rightarrow> Inl TypeError))"

subsection \<open>GolfNowScraper: extraction from the rendered page\<close>

text \<open>
  The callback of \<^verbatim>\<open>page.evaluate\<close> runs over the elements matched by
  \<^verbatim>\<open>.tee-time-card, .teetime-row, [data-teetime-id]\<close>. Of an element the callback uses
  the text of the first descendant matching \<^verbatim>\<open>.time, .teetime-time\<close>, \<^verbatim>\<open>.price, .rate\<close>
  and \<^verbatim>\<open>.slots, .available\<close> (\<open>None\<close> when there is no such descendant), whether the
  element has the class \<^verbatim>\<open>hot-deal\<close>, and its whole text.
\<close>

record element =
  time_node :: "string option"
  price_node :: "string option"
  slots_node :: "string option"
  hot_deal_class :: bool
  textContent :: string

text \<open>
  \<^verbatim>\<open>priceText.match(/\$?(\d+(?:\.\d{2})?)/)\<close>: the leftmost match starts at the first
  digit (or at a dollar sign right before it); the group is the run of digits, with a
  point and two digits when they follow.
\<close>

definition price_group :: "string \<Rightarrow> string" where
  "price_group s =
     (let ip = takeWhile is_digit s in
      case dropWhile is_digit s of
        c # d1 # d2 # r \<Rightarrow>
          if c = CHR ''.'' \<and> is_digit d1 \<and> is_digit d2 then ip @ [c, d1, d2] else ip
      | _ \<Rightarrow> ip)"

fun price_match :: "string \<Rightarrow> string option" where
  "price_match [] = None"
| "price_match (c # cs) =
     (if is_digit c then Some (price_group (c # cs))
      else if c = CHR ''$'' \<and> (case cs of [] \<Rightarrow> False | d # r \<Rightarrow> is_digit d)
        then Some (price_group cs)
      else price_match cs)"

text \<open>\<^verbatim>\<open>slotsText?.match(/(\d+)/)\<close>: the first run of digits.\<close>

definition slots_match :: "string \<Rightarrow> string option" where
  "slots_match s =
     (let r = dropWhile (\<lambda>c. \<not> is_digit c) s
      in if r = [] then None else Some (takeWhile is_digit r))"

text \<open>\<^verbatim>\<open>toLowerCase\<close> on the ASCII letters, and \<^verbatim>\<open>includes\<close>.\<close>

definition lower_char :: "char \<Rightarrow> char" where
  "lower_char c =
     (case map_of (zip ''ABCDEFGHIJKLMNOPQRSTUVWXYZ'' ''abcdefghijklmnopqrstuvwxyz'') c of
        None \<Rightarrow> c | Some l \<Rightarrow> l)"

definition toLowerCase :: "string \<Rightarrow> string" where
  "toLowerCase s = map lower_char s"

fun includes_str :: "string \<Rightarrow> string \<Rightarrow> bool" where
  "includes_str [] p = (p = [])"
| "includes_str (c # cs) p = (starts_with p (c # cs) \<or> includes_str cs p)"

text \<open>
  \<^verbatim>\<open>if (timeText && priceText)\<close>: both texts must exist and be non-empty after
  \<^verbatim>\<open>trim\<close>; other elements push nothing.
\<close>

definition GolfNow_element :: "element \<Rightarrow> tee_time list" where
  "GolfNow_element el =
     (case (map_option js_trim (time_node el), map_option js_trim (price_node el)) of
        (Some timeText, Some priceText) \<Rightarrow>
          if timeText \<noteq> [] \<and> priceText \<noteq> [] then
            [\<lparr> time = JStr timeText,
               price = (case price_match priceText of
                          None \<Rightarrow> Null | Some g \<Rightarrow> Num (parseFloat_str g)),
               availableSlots =
                 (case (case map_option js_trim (slots_node el) of
                          None \<Rightarrow> None | Some slotsText \<Rightarrow> slots_match slotsText) of
                    None \<Rightarrow> Num (Fin 4) | Some g \<Rightarrow> Num (parseInt_str g)),
               holes = Missing,
               isHotDeal = JBool (hot_deal_class el
                                  \<or> includes_str (toLowerCase (textContent el)) ''hot'') \<rparr>]
          else []
      | _ \<Rightarrow> [])"

definition GolfNow_evaluate :: "element list \<Rightarrow> tee_time list" where
  "GolfNow_evaluate els = concat (map GolfNow_element els)"

section \<open>Courses, the cache and the upstream systems\<close>

record course =
  course_id :: string
  name :: string
  bookingUrl :: string
  bookingSystem :: string
  city :: string

definition UTAH_COURSES :: "course list" where
  "UTAH_COURSES =
     [\<lparr> course_id = ''bonneville'', name = ''Bonneville Golf Course'',
         bookingUrl = ''https://foreupsoftware.com/index.php/booking/20287/5495'',
         bookingSystem = ''foreup'', city = ''Salt Lake City'' \<rparr>,
      \<lparr> course_id = ''mountain-dell-canyon'', name = ''Mountain Dell Golf Course - Canyon'',
         bookingUrl = ''https://foreupsoftware.com/index.php/booking/20287/5496'',
         bookingSystem = ''foreup'', city = ''Salt Lake City'' \<rparr>,
      \<lparr> course_id = ''river-oaks'', name = ''River Oaks Golf Course'',
         bookingUrl =
           ''https://www.golfnow.com/tee-times/facility/19765-river-oaks-golf-course/search'',
         bookingSystem = ''golfnow'', city = ''Sandy'' \<rparr>,
      \<lparr> course_id = ''thanksgiving-point'', name = ''Thanksgiving Point Golf Club'',
         bookingUrl =
           ''https://www.golfnow.com/tee-times/facility/1126-thanksgiving-point-golf-club/search'',
         bookingSystem = ''golfnow'', city = ''Lehi'' \<rparr>,
      \<lparr> course_id = ''meadowbrook'', name = ''Meadowbrook Golf Course'',
         bookingUrl = ''https://www.chronogolf.com/course/meadowbrook-golf-course'',
         bookingSystem = ''chronogolf'', city = ''Taylorsville'' \<rparr>]"

text \<open>\<^verbatim>\<open>UTAH_COURSES.find(c => c.id === courseId)\<close>\<close>

definition find_course :: "string \<Rightarrow> course option" where
  "find_course i = find (\<lambda>c. course_id c = i) UTAH_COURSES"

text \<open>
  What lies outside the process is a parameter of every operation: the clock (seconds),
  whether the Redis connection works, whether \<^verbatim>\<open>initBrowser\<close> has set \<^verbatim>\<open>browser\<close>, and the
  answers of the upstream systems. \<^verbatim>\<open>axios.get\<close> resolves with the parsed body
  (\<^verbatim>\<open>response.data\<close>) or rejects (transport error, the 10 s timeout, an error status). A
  page visit can reject at \<^verbatim>\<open>browser.newPage\<close>, at \<^verbatim>\<open>page.goto\<close> (navigation error or
  the 30 s timeout) or at \<^verbatim>\<open>page.evaluate\<close>, or it yields the matched elements.
\<close>

datatype request = ApiGet string "(string \<times> string) list" | PageGoto string

datatype http_outcome = HttpRejects | HttpOk js_value

datatype page_outcome = NewPageRejects | GotoRejects | EvaluateRejects | PageContent "element list"

record env =
  now :: nat
  today :: string
  redis_up :: bool
  browser :: bool
  http :: "request \<Rightarrow> http_outcome"
  page :: "string \<Rightarrow> page_outcome"

text \<open>
  The state the server changes: the Redis keys with their values and expiry times, the
  pages open in the shared browser, and the upstream requests issued so far.
\<close>

record state =
  cache :: "string \<Rightarrow> (json_text \<times> nat) option"
  open_pages :: nat
  requests :: "request list"

text \<open>\<^verbatim>\<open>GET\<close>, \<^verbatim>\<open>SETEX\<close> and \<^verbatim>\<open>DEL\<close>; a key is gone once its time to live has passed.\<close>

definition redis_get :: "env \<Rightarrow> state \<Rightarrow> string \<Rightarrow> json_text option" where
  "redis_get e s k =
     (case cache s k of
        None \<Rightarrow> None
      | Some (v, expiresAt) \<Rightarrow> if now e < expiresAt then Some v else None)"

definition redis_setex :: "env \<Rightarrow> state \<Rightarrow> string \<Rightarrow> nat \<Rightarrow> json_text \<Rightarrow> state" where
  "redis_setex e s k ttl v = s\<lparr>cache := (cache s)(k \<mapsto> (v, now e + ttl))\<rparr>"

definition redis_del :: "state \<Rightarrow> string \<Rightarrow> state" where
  "redis_del s k = s\<lparr>cache := (cache s)(k := None)\<rparr>"

definition issue :: "request \<Rightarrow> state \<Rightarrow> state" where
  "issue r s = s\<lparr>requests := requests s @ [r]\<rparr>"

definition new_page :: "state \<Rightarrow> state" where
  "new_page s = s\<lparr>open_pages := Suc (open_pages s)\<rparr>"

definition close_page :: "state \<Rightarrow> state" where
  "close_page s = s\<lparr>open_pages := open_pages s - 1\<rparr>"

text \<open>
  The body of a \<^verbatim>\<open>try\<close> block either throws, leaving the state as it was at the throw, or
  returns. Every scraper's handler is \<^verbatim>\<open>catch (error) { console.error(...); return []; }\<close>.
\<close>

type_synonym outcome = "(error \<times> state) + (tee_time list \<times> state)"

definition catch_empty :: "outcome \<Rightarrow> tee_time list \<times> state" where
  "catch_empty r = (case r of Inl (e, s) \<Rightarrow> ([], s) | Inr p \<Rightarrow> p)"

section \<open>The scrapers\<close>

datatype scraper = GolfNowScraper | ForeUpScraper | ChronogolfScraper | GenericScraper

definition createScraper :: "string \<Rightarrow> scraper" where
  "createScraper system =
     (if system = ''golfnow'' then GolfNowScraper
      else if system = ''foreup'' then ForeUpScraper
      else if system = ''chronogolf'' then ChronogolfScraper
      else GenericScraper)"

definition cacheKey :: "string \<Rightarrow> course \<Rightarrow> string \<Rightarrow> string" where
  "cacheKey tag c date = tag @ '':'' @ course_id c @ '':'' @ date"

subsection \<open>GolfNowScraper\<close>

text \<open>
  From \<^verbatim>\<open>browser.newPage()\<close> to the \<^verbatim>\<open>return teeTimes\<close>. The page is open from
  \<^verbatim>\<open>newPage\<close> until \<^verbatim>\<open>page.close()\<close>, which is reached only after \<^verbatim>\<open>page.evaluate\<close>
  has returned. \<^verbatim>\<open>setUserAgent\<close>, \<^verbatim>\<open>waitForTimeout\<close> and \<^verbatim>\<open>close\<close> are taken not to
  reject.
\<close>

definition GolfNow_render :: "env \<Rightarrow> state \<Rightarrow> course \<Rightarrow> string \<Rightarrow> outcome" where
  "GolfNow_render e s c date =
     (let url = bookingUrl c @ ''?date='' @ date in
      case page e url of
        NewPageRejects \<Rightarrow> Inl (BrowserError, s)
      | GotoRejects \<Rightarrow> Inl (RenderTimeout, issue (PageGoto url) (new_page s))
      | EvaluateRejects \<Rightarrow> Inl (EvaluateError, issue (PageGoto url) (new_page s))
      | PageContent els \<Rightarrow>
          (let teeTimes = GolfNow_evaluate els;
               s1 = close_page (issue (PageGoto url) (new_page s))
           in Inr (teeTimes,
                redis_setex e s1 (cacheKey ''golfnow'' c date) 900 (JSON_stringify teeTimes))))"

text \<open>server.js returns \<^verbatim>\<open>[]\<close> when the browser was not initialised.\<close>

definition GolfNow_fetch :: "env \<Rightarrow> state \<Rightarrow> course \<Rightarrow> string \<Rightarrow> outcome" where
  "GolfNow_fetch e s c date =
     (if \<not> browser e then Inr ([], s) else GolfNow_render e s c date)"

definition GolfNow_try :: "env \<Rightarrow> state \<Rightarrow> course \<Rightarrow> string \<Rightarrow> outcome" where
  "GolfNow_try e s c date =
     (if \<not> redis_up e then Inl (RedisError, s)
      else case redis_get e s (cacheKey ''golfnow'' c date) of
             Some cachedData \<Rightarrow> Inr (JSON_parse cachedData, s)
           | None \<Rightarrow> GolfNow_fetch e s c date)"

text \<open>
  The second server file has no such test: \<^verbatim>\<open>browser.newPage()\<close> on the undefined
  \<^verbatim>\<open>browser\<close> throws a TypeError.
\<close>

definition GolfNow_fetch_p1 :: "env \<Rightarrow> state \<Rightarrow> course \<Rightarrow> string \<Rightarrow> outcome" where
  "GolfNow_fetch_p1 e s c date =
     (if \<not> browser e then Inl (TypeError, s) else GolfNow_render e s c date)"

definition GolfNow_try_p1 :: "env \<Rightarrow> state \<Rightarrow> course \<Rightarrow> string \<Rightarrow> outcome" where
  "GolfNow_try_p1 e s c date =
     (if \<not> redis_up e then Inl (RedisError, s)
      else case redis_get e s (cacheKey ''golfnow'' c date) of
             Some cachedData \<Rightarrow> Inr (JSON_parse cachedData, s)
           | None \<Rightarrow> GolfNow_fetch_p1 e s c date)"

subsection \<open>ForeUpScraper\<close>

text \<open>\<^verbatim>\<open>course.bookingUrl.match(/booking\/(\d+)\/(\d+)/)\<close>, leftmost match.\<close>

definition foreup_at :: "string \<Rightarrow> (string \<times> string) option" where
  "foreup_at s =
     (if starts_with ''booking/'' s then
        (let r = drop 8 s; bookingId = takeWhile is_digit r in
         case dropWhile is_digit r of
           [] \<Rightarrow> None
         | c # r2 \<Rightarrow>
             let scheduleId = takeWhile is_digit r2 in
             if bookingId \<noteq> [] \<and> c = CHR ''/'' \<and> scheduleId \<noteq> []
             then Some (bookingId, scheduleId) else None)
      else None)"

fun foreup_match :: "string \<Rightarrow> (string \<times> string) option" where
  "foreup_match [] = None"
| "foreup_match (c # cs) =
     (case foreup_at (c # cs) of Some m \<Rightarrow> Some m | None \<Rightarrow> foreup_match cs)"

definition foreup_request :: "string \<Rightarrow> string \<Rightarrow> string \<Rightarrow> request" where
  "foreup_request bookingId scheduleId date =
     ApiGet ''https://foreupsoftware.com/index.php/api/booking/times''
       [(''time'', ''all''), (''date'', date), (''holes'', ''all''), (''players'', ''0''),
        (''booking_class'', bookingId), (''schedule_id'', scheduleId),
        (''schedule_ids[]'', scheduleId), (''specials_only'', ''0''),
        (''api_key'', ''no_limits'')]"

definition ForeUp_fetch :: "env \<Rightarrow> state \<Rightarrow> course \<Rightarrow> string \<Rightarrow> outcome" where
  "ForeUp_fetch e s c date =
     (case foreup_match (bookingUrl c) of
        None \<Rightarrow> Inr ([], s)
      | Some (bookingId, scheduleId) \<Rightarrow>
          (let req = foreup_request bookingId scheduleId date; s1 = issue req s in
           case http e req of
             HttpRejects \<Rightarrow> Inl (HttpError, s1)
           | HttpOk data \<Rightarrow>
               (case ForeUp_parse data of
                  Inl err \<Rightarrow> Inl (err, s1)
                | Inr teeTimes \<Rightarrow>
                    Inr (teeTimes,
                      redis_setex e s1 (cacheKey ''foreup'' c date) 900
                        (JSON_stringify teeTimes)))))"

definition ForeUp_try :: "env \<Rightarrow> state \<Rightarrow> course \<Rightarrow> string \<Rightarrow> outcome" where
  "ForeUp_try e s c date =
     (if \<not> redis_up e then Inl (RedisError, s)
      else case redis_get e s (cacheKey ''foreup'' c date) of
             Some cachedData \<Rightarrow> Inr (JSON_parse cachedData, s)
           | None \<Rightarrow> ForeUp_fetch e s c date)"

subsection \<open>ChronogolfScraper\<close>

text \<open>\<^verbatim>\<open>course.bookingUrl.match(/course\/([^/?]+)/)?.[1]\<close>\<close>

definition chronogolf_at :: "string \<Rightarrow> string option" where
  "chronogolf_at s =
     (if starts_with ''course/'' s then
        (let slug = takeWhile (\<lambda>c. c \<noteq> CHR ''/'' \<and> c \<noteq> CHR ''?'') (drop 7 s)
         in if slug = [] then None else Some slug)
      else None)"

fun chronogolf_match :: "string \<Rightarrow> string option" where
  "chronogolf_match [] = None"
| "chronogolf_match (c # cs) =
     (case chronogolf_at (c # cs) of Some m \<Rightarrow> Some m | None \<Rightarrow> chronogolf_match cs)"

definition chronogolf_request :: "string \<Rightarrow> string \<Rightarrow> request" where
  "chronogolf_request courseSlug date =
     ApiGet (''https://www.chronogolf.com/marketplace/clubs/'' @ courseSlug @ ''/tee-times'')
       [(''date'', date), (''nb_holes'', ''18'')]"

text \<open>
  The two server files differ in the normalisation only, which is the first argument.
\<close>

definition Chronogolf_fetch_with ::
  "(js_value \<Rightarrow> error + tee_time list) \<Rightarrow> env \<Rightarrow> state \<Rightarrow> course \<Rightarrow> string \<Rightarrow> outcome" where
  "Chronogolf_fetch_with parse e s c date =
     (case chronogolf_match (bookingUrl c) of
        None \<Rightarrow> Inr ([], s)
      | Some courseSlug \<Rightarrow>
          (let req = chronogolf_request courseSlug date; s1 = issue req s in
           case http e req of
             HttpRejects \<Rightarrow> Inl (HttpError, s1)
           | HttpOk data \<Rightarrow>
               (case parse data of
                  Inl err \<Rightarrow> Inl (err, s1)
                | Inr teeTimes \<Rightarrow>
                    Inr (teeTimes,
                      redis_setex e s1 (cacheKey ''chronogolf'' c date) 900
                        (JSON_stringify teeTimes)))))"

definition Chronogolf_try_with ::
  "(js_value \<Rightarrow> error + tee_time list) \<Rightarrow> env \<Rightarrow> state \<Rightarrow> course \<Rightarrow> string \<Rightarrow> outcome" where
  "Chronogolf_try_with parse e s c date =
     (if \<not> redis_up e then Inl (RedisError, s)
      else case redis_get e s (cacheKey ''chronogolf'' c date) of
             Some cachedData \<Rightarrow> Inr (JSON_parse cachedData, s)
           | None \<Rightarrow> Chronogolf_fetch_with parse e s c date)"


definition Chronogolf_try :: "env \<Rightarrow> state \<Rightarrow> course \<Rightarrow> string \<Rightarrow> outcome" where
  "Chronogolf_try e s c date = Chronogolf_try_with Chronogolf_parse e s c date"


definition Chronogolf_try_p1 :: "env \<Rightarrow> state \<Rightarrow> course \<Rightarrow> string \<Rightarrow> outcome" where
  "Chronogolf_try_p1 e s c date = Chronogolf_try_with Chronogolf_parse_p1 e s c date"

subsection \<open>GenericScraper\<close>

text \<open>server.js returns two sample slots; the second server file returns \<^verbatim>\<open>[]\<close>.\<close>

definition Generic_sample :: "tee_time list" where
  "Generic_sample =
     [\<lparr> time = JStr ''7:00 AM'', price = Num (Fin 45), availableSlots = Num (Fin 4),
         holes = Num (Fin 18), isHotDeal = JBool False \<rparr>,
      \<lparr> time = JStr ''7:30 AM'', price = Num (Fin 45), availableSlots = Num (Fin 2),
         holes = Num (Fin 18), isHotDeal = JBool False \<rparr>]"

subsection \<open>scrapeTeeTimes\<close>

fun scrapeTeeTimes :: "scraper \<Rightarrow> env \<Rightarrow> state \<Rightarrow> course \<Rightarrow> string \<Rightarrow> tee_time list \<times> state" where
  "scrapeTeeTimes GolfNowScraper e s c date = catch_empty (GolfNow_try e s c date)"
| "scrapeTeeTimes ForeUpScraper e s c date = catch_empty (ForeUp_try e s c date)"
| "scrapeTeeTimes ChronogolfScraper e s c date = catch_empty (Chronogolf_try e s c date)"
| "scrapeTeeTimes GenericScraper e s c date = (Generic_sample, s)"

fun scrapeTeeTimes_p1 :: "scraper \<Rightarrow> env \<Rightarrow> state \<Rightarrow> course \<Rightarrow> string \<Rightarrow> tee_time list \<times> state" where
  "scrapeTeeTimes_p1 GolfNowScraper e s c date = catch_empty (GolfNow_try_p1 e s c date)"
| "scrapeTeeTimes_p1 ForeUpScraper e s c date = catch_empty (ForeUp_try e s c date)"
| "scrapeTeeTimes_p1 ChronogolfScraper e s c date = catch_empty (Chronogolf_try_p1 e s c date)"
| "scrapeTeeTimes_p1 GenericScraper e s c date = ([], s)"

text \<open>
  Every handler resolves the slots of a course with the same two statements:
  \<^verbatim>\<open>createScraper(course.bookingSystem)\<close>, then \<^verbatim>\<open>scraper.scrapeTeeTimes(course, date)\<close>.
\<close>

definition resolve :: "env \<Rightarrow> state \<Rightarrow> course \<Rightarrow> string \<Rightarrow> tee_time list \<times> state" where
  "resolve e s c date = scrapeTeeTimes (createScraper (bookingSystem c)) e s c date"

definition resolve_p1 :: "env \<Rightarrow> state \<Rightarrow> course \<Rightarrow> string \<Rightarrow> tee_time list \<times> state" where
  "resolve_p1 e s c date = scrapeTeeTimes_p1 (createScraper (bookingSystem c)) e s c date"

section \<open>The request handlers\<close>

text \<open>
  A handler answers with a status and a body. \<^verbatim>\<open>Promise.all\<close> and
  \<^verbatim>\<open>Promise.allSettled\<close> over the courses are modelled as one course after the other,
  in the order of the list. A query parameter and the \<^verbatim>\<open>date\<close> of a request body are
  absent or a string, and the course ids of a batch request are strings; the handlers are
  modelled from the point where the request has passed its validation.
\<close>

datatype 'a response = NotFound | ServerError | Json 'a

text \<open>\<^verbatim>\<open>req.query.date || new Date().toISOString().split('T')[0]\<close>\<close>

definition or_today :: "env \<Rightarrow> string option \<Rightarrow> string" where
  "or_today e q = (case q of None \<Rightarrow> today e | Some d \<Rightarrow> if d = [] then today e else d)"

subsection \<open>GET /api/search/tee-times (server.js)\<close>

text \<open>
  \<^verbatim>\<open>a < b\<close> on numbers is false whenever an operand is NaN. In a comparison
  \<^verbatim>\<open>null\<close> converts to 0 and \<^verbatim>\<open>undefined\<close> to NaN.
\<close>

fun js_less :: "js_number \<Rightarrow> js_number \<Rightarrow> bool" where
  "js_less (Fin a) (Fin b) = (a < b)"
| "js_less (Fin a) PosInf = True"
| "js_less (Fin a) NegInf = False"
| "js_less NegInf (Fin b) = True"
| "js_less NegInf PosInf = True"
| "js_less NegInf NegInf = False"
| "js_less PosInf n = False"
| "js_less NaN n = False"
| "js_less (Fin a) NaN = False"
| "js_less NegInf NaN = False"

fun to_number :: "num_field \<Rightarrow> js_number" where
  "to_number Missing = NaN"
| "to_number Null = Fin 0"
| "to_number (Num n) = n"

fun number_truthy :: "js_number \<Rightarrow> bool" where
  "number_truthy (Fin r) = (r \<noteq> 0)"
| "number_truthy NaN = False"
| "number_truthy PosInf = True"
| "number_truthy NegInf = True"

text \<open>\<^verbatim>\<open>req.query.maxPrice ? parseFloat(req.query.maxPrice) : null\<close>\<close>

definition maxPrice_of :: "string option \<Rightarrow> js_number option" where
  "maxPrice_of q =
     (case q of None \<Rightarrow> None | Some v \<Rightarrow> if v = [] then None else Some (parseFloat_str v))"

text \<open>\<^verbatim>\<open>req.query.minSlots ? parseInt(req.query.minSlots) : 1\<close>\<close>

definition minSlots_of :: "string option \<Rightarrow> js_number" where
  "minSlots_of q =
     (case q of None \<Rightarrow> Fin 1 | Some v \<Rightarrow> if v = [] then Fin 1 else parseInt_str v)"

text \<open>
  The callback of \<^verbatim>\<open>teeTimes.filter\<close>:
  \<^verbatim>\<open>if (maxPrice && time.price > maxPrice) return false;\<close>
  \<^verbatim>\<open>if (time.availableSlots < minSlots) return false; return true;\<close>
\<close>

definition search_keeps :: "js_number option \<Rightarrow> js_number \<Rightarrow> tee_time \<Rightarrow> bool" where
  "search_keeps maxPrice minSlots t =
     (if (case maxPrice of
            None \<Rightarrow> False
          | Some m \<Rightarrow> number_truthy m \<and> js_less m (to_number (price t))) then False
      else if js_less (to_number (availableSlots t)) minSlots then False
      else True)"

fun search_courses ::
  "env \<Rightarrow> state \<Rightarrow> course list \<Rightarrow> string \<Rightarrow> js_number option \<Rightarrow> js_number
     \<Rightarrow> (course \<times> tee_time list) list \<times> state" where
  "search_courses e s [] date maxPrice minSlots = ([], s)"
| "search_courses e s (c # cs) date maxPrice minSlots =
     (case resolve e s c date of
        (teeTimes, s1) \<Rightarrow>
          (case search_courses e s1 cs date maxPrice minSlots of
             (rest, s2) \<Rightarrow> ((c, filter (search_keeps maxPrice minSlots) teeTimes) # rest, s2)))"

record search_body =
  date_of :: string
  maxPrice_filter :: "js_number option"
  minSlots_filter :: js_number
  results :: "(course \<times> tee_time list) list"

text \<open>
  The handler over a list of courses. No statement of its \<^verbatim>\<open>try\<close> block can throw (the
  scrapers catch their own errors), so the answer is always the JSON body.
\<close>

definition search_over ::
  "course list \<Rightarrow> env \<Rightarrow> state \<Rightarrow> string option \<Rightarrow> string option \<Rightarrow> string option
     \<Rightarrow> search_body response \<times> state" where
  "search_over courses e s date_q maxPrice_q minSlots_q =
     (let date = or_today e date_q;
          maxPrice = maxPrice_of maxPrice_q;
          minSlots = minSlots_of minSlots_q
      in case search_courses e s courses date maxPrice minSlots of
           (allResults, s1) \<Rightarrow>
             (Json \<lparr> date_of = date, maxPrice_filter = maxPrice, minSlots_filter = minSlots,
                     results = filter (\<lambda>r. 0 < length (snd r)) allResults \<rparr>, s1))"


subsection \<open>POST /api/refresh/:courseId (server.js)\<close>



subsection \<open>POST /api/courses/batch-teetimes (second server file)\<close>

record batch_entry =
  courseId :: string
  courseName :: string
  teeTimes :: "tee_time list"
  count :: nat

text \<open>
  The callback of \<^verbatim>\<open>courseIds.map\<close> returns \<^verbatim>\<open>null\<close> for an unknown id and an entry
  otherwise; it cannot throw, so every promise is fulfilled.
\<close>

fun batch_settled ::
  "env \<Rightarrow> state \<Rightarrow> string list \<Rightarrow> string \<Rightarrow> batch_entry option list \<times> state" where
  "batch_settled e s [] date = ([], s)"
| "batch_settled e s (i # ids) date =
     (case find_course i of
        None \<Rightarrow>
          (case batch_settled e s ids date of (rest, s2) \<Rightarrow> (None # rest, s2))
      | Some c \<Rightarrow>
          (case resolve_p1 e s c date of
             (slots, s1) \<Rightarrow>
               (case batch_settled e s1 ids date of
                  (rest, s2) \<Rightarrow>
                    (Some \<lparr> courseId = course_id c, courseName = name c, teeTimes = slots,
                            count = length slots \<rparr> # rest, s2))))"

text \<open>\<^verbatim>\<open>results.filter(result => result.status === 'fulfilled' && result.value).map(result => result.value)\<close>\<close>

fun fulfilled_values :: "batch_entry option list \<Rightarrow> batch_entry list" where
  "fulfilled_values [] = []"
| "fulfilled_values (None # rs) = fulfilled_values rs"
| "fulfilled_values (Some v # rs) = v # fulfilled_values rs"

record batch_body =
  data :: "batch_entry list"
  batch_date :: string
  totalCourses :: nat

text \<open>The destructuring default applies to an absent \<^verbatim>\<open>date\<close> only.\<close>

definition batch :: "env \<Rightarrow> state \<Rightarrow> string list \<Rightarrow> string option \<Rightarrow> batch_body response \<times> state" where
  "batch e s courseIds date_q =
     (let date = (case date_q of None \<Rightarrow> today e | Some d \<Rightarrow> d)
      in case batch_settled e s courseIds date of
           (settled, s1) \<Rightarrow>
             (let d = fulfilled_values settled
              in (Json \<lparr> data = d, batch_date = date, totalCourses = length d \<rparr>, s1)))"

section \<open>The operations in the words of the specification\<close>



text \<open>
  The specification's \<open>batch\<close>: the fan-out over the courses, one result per course with
  the slots as resolved, nothing filtered and nothing dropped.
\<close>

fun batch_spec ::
  "env \<Rightarrow> state \<Rightarrow> course list \<Rightarrow> string \<Rightarrow> (course \<times> tee_time list) list \<times> state" where
  "batch_spec e s [] date = ([], s)"
| "batch_spec e s (c # cs) date =
     (case resolve_p1 e s c date of
        (slots, s1) \<Rightarrow>
          (case batch_spec e s1 cs date of (rest, s2) \<Rightarrow> ((c, slots) # rest, s2)))"

text \<open>The courses of the registry that a list of ids names, in the order of the list.\<close>

fun known_courses :: "string list \<Rightarrow> course list" where
  "known_courses [] = []"
| "known_courses (i # ids) =
     (case find_course i of None \<Rightarrow> known_courses ids | Some c \<Rightarrow> c # known_courses ids)"

definition entry_of :: "course \<times> tee_time list \<Rightarrow> batch_entry" where
  "entry_of r =
     \<lparr> courseId = course_id (fst r), courseName = name (fst r), teeTimes = snd r,
       count = length (snd r) \<rparr>"

section \<open>Example inputs\<close>

text \<open>Concrete courses, states and upstream answers on which the results are evaluated.\<close>

definition bonneville :: course where
  "bonneville =
     \<lparr> course_id = ''bonneville'', name = ''Bonneville Golf Course'',
       bookingUrl = ''https://foreupsoftware.com/index.php/booking/20287/5495'',
       bookingSystem = ''foreup'', city = ''Salt Lake City'' \<rparr>"

definition river_oaks :: course where
  "river_oaks =
     \<lparr> course_id = ''river-oaks'', name = ''River Oaks Golf Course'',
       bookingUrl =
         ''https://www.golfnow.com/tee-times/facility/19765-river-oaks-golf-course/search'',
       bookingSystem = ''golfnow'', city = ''Sandy'' \<rparr>"

definition meadowbrook :: course where
  "meadowbrook =
     \<lparr> course_id = ''meadowbrook'', name = ''Meadowbrook Golf Course'',
       bookingUrl = ''https://www.chronogolf.com/course/meadowbrook-golf-course'',
       bookingSystem = ''chronogolf'', city = ''Taylorsville'' \<rparr>"

text \<open>A course whose booking system none of the scrapers knows.\<close>

definition teesnap_course :: course where
  "teesnap_course =
     \<lparr> course_id = ''glenmoor'', name = ''Glenmoor Golf Club'',
       bookingUrl = ''https://glenmoor.teesnap.net'',
       bookingSystem = ''teesnap'', city = ''South Jordan'' \<rparr>"

definition june1 :: string where
  "june1 = ''2025-06-01''"

definition empty_state :: state where
  "empty_state = \<lparr> cache = (\<lambda>k. None), open_pages = 0, requests = [] \<rparr>"

text \<open>Upstream systems that always reject, always time out, or always answer one body.\<close>

definition http_down :: "request \<Rightarrow> http_outcome" where
  "http_down r = HttpRejects"

definition http_answers :: "js_value \<Rightarrow> request \<Rightarrow> http_outcome" where
  "http_answers body r = HttpOk body"

definition goto_times_out :: "string \<Rightarrow> page_outcome" where
  "goto_times_out url = GotoRejects"

text \<open>An environment at time \<open>t\<close> with Redis and the browser up.\<close>

definition env_at :: "nat \<Rightarrow> (request \<Rightarrow> http_outcome) \<Rightarrow> (string \<Rightarrow> page_outcome) \<Rightarrow> env" where
  "env_at t h p =
     \<lparr> now = t, today = june1, redis_up = True, browser = True, http = h, page = p \<rparr>"


definition slot_defaults :: tee_time where
  "slot_defaults =
     \<lparr> time = JStr ''7:00 AM'', price = Num (Fin 50), availableSlots = Num (Fin 4),
       holes = Num (Fin 18), isHotDeal = JBool False \<rparr>"







section \<open>Facts about the example inputs\<close>

lemma upstream_examples [simp]:
  "http_down r = HttpRejects" "http_answers body r = HttpOk body"
  "goto_times_out url = GotoRejects"
  by (simp_all add: http_down_def http_answers_def goto_times_out_def)

lemma find_course_examples:
  "find_course ''bonneville'' = Some bonneville"
  "find_course ''river-oaks'' = Some river_oaks"
  "find_course ''meadowbrook'' = Some meadowbrook"
  "find_course ''pebble-beach'' = None"
  by (simp_all add: find_course_def UTAH_COURSES_def bonneville_def river_oaks_def
      meadowbrook_def)

lemma env_at_fields [simp]:
  "now (env_at t h p) = t" "today (env_at t h p) = june1" "redis_up (env_at t h p)"
  "browser (env_at t h p)" "http (env_at t h p) = h" "page (env_at t h p) = p"
  by (simp_all add: env_at_def)

lemma empty_state_miss [simp]: "redis_get e empty_state k = None"
  by (simp add: redis_get_def empty_state_def)

lemma createScraper_examples:
  "createScraper (bookingSystem bonneville) = ForeUpScraper"
  "createScraper (bookingSystem river_oaks) = GolfNowScraper"
  "createScraper (bookingSystem meadowbrook) = ChronogolfScraper"
  "createScraper (bookingSystem teesnap_course) = GenericScraper"
  by (simp_all add: createScraper_def bonneville_def river_oaks_def meadowbrook_def
      teesnap_course_def)

lemma locator_examples:
  "foreup_match (bookingUrl bonneville) = Some (''20287'', ''5495'')"
  "chronogolf_match (bookingUrl meadowbrook) = Some ''meadowbrook-golf-course''"
  by (simp_all add: bonneville_def meadowbrook_def foreup_at_def chronogolf_at_def
      is_digit_def)

section \<open>Dispatch and the fallback scraper\<close>


text \<open>
  Claim C8. A course whose booking system is none of \<^verbatim>\<open>golfnow\<close>, \<^verbatim>\<open>foreup\<close> and
  \<^verbatim>\<open>chronogolf\<close> is dispatched to the GenericScraper, which cannot fail: whatever the
  environment, the state, the course and the date, server.js answers with the same two
  sample slots and the second server file with the empty sequence, and neither touches
  the cache, the browser or an upstream system.
\<close>

theorem unknown_system_falls_back:
  assumes "bookingSystem c \<notin> {''golfnow'', ''foreup'', ''chronogolf''}"
  shows "createScraper (bookingSystem c) = GenericScraper
       \<and> resolve e s c date = (Generic_sample, s)
       \<and> resolve_p1 e s c date = ([], s)"
  using assms by (simp add: createScraper_def resolve_def resolve_p1_def)

theorem unknown_system_falls_back_witness:
  "createScraper (bookingSystem teesnap_course) = GenericScraper
   \<and> resolve (env_at 0 http_down goto_times_out) empty_state teesnap_course june1
       = (Generic_sample, empty_state)
   \<and> resolve_p1 (env_at 0 http_down goto_times_out) empty_state teesnap_course june1
       = ([], empty_state)"
  using unknown_system_falls_back
    [of teesnap_course "env_at 0 http_down goto_times_out" empty_state june1]
  by (simp add: teesnap_course_def)

section \<open>Normalisation\<close>

lemma ForeUp_slot_total: "\<not> nullish slot \<Longrightarrow> \<exists>t. ForeUp_slot slot = Inr t"
  by (simp add: ForeUp_slot_def)

lemma Chronogolf_slot_total: "\<not> nullish slot \<Longrightarrow> \<exists>t. Chronogolf_slot slot = Inr t"
  by (simp add: Chronogolf_slot_def)

lemma Chronogolf_slot_p1_total: "\<not> nullish slot \<Longrightarrow> \<exists>t. Chronogolf_slot_p1 slot = Inr t"
  by (simp add: Chronogolf_slot_p1_def)










text \<open>
  Claim C10. In the direct-API normalisations a numeric source field that is present with
  the value 0 has the effect of an absent field: the record normalises exactly as it
  would without the field, because \<^verbatim>\<open>||\<close> passes over a 0. With no other
  candidate field present, zero available spots become 4 available slots and a zero fee
  becomes the price 50.
\<close>

theorem zero_field_counts_as_absent:
  assumes "map_of fs k = None"
  shows "(k \<in> {''green_fee'', ''price'', ''available_spots'', ''max_players'', ''holes''}
            \<longrightarrow> ForeUp_slot (JObj ((k, JNum (Fin 0)) # fs)) = ForeUp_slot (JObj fs))
       \<and> (k \<in> {''price'', ''green_fee'', ''available_spots'', ''remaining_spots'', ''holes'',
                ''nb_holes''}
            \<longrightarrow> Chronogolf_slot_p1 (JObj ((k, JNum (Fin 0)) # fs)) = Chronogolf_slot_p1 (JObj fs))
       \<and> (k \<in> {''green_fee'', ''nb_bookable_slots'', ''nb_holes''}
            \<longrightarrow> Chronogolf_slot (JObj ((k, JNum (Fin 0)) # fs)) = Chronogolf_slot (JObj fs))
       \<and> ForeUp_slot (JObj [(''time'', t), (''available_spots'', JNum (Fin 0)),
                             (''green_fee'', JNum (Fin 0))])
           = Inr \<lparr> time = js_or t JUndefined, price = Num (Fin 50),
                   availableSlots = Num (Fin 4), holes = Num (Fin 18),
                   isHotDeal = JBool False \<rparr>
       \<and> Chronogolf_slot_p1 (JObj [(''start_time'', t), (''available_spots'', JNum (Fin 0)),
                                    (''price'', JNum (Fin 0))])
           = Inr \<lparr> time = js_or t JUndefined, price = Num (Fin 50),
                   availableSlots = Num (Fin 4), holes = Num (Fin 18),
                   isHotDeal = JBool False \<rparr>"
proof (intro conjI impI)
  assume "k \<in> {''green_fee'', ''price'', ''available_spots'', ''max_players'', ''holes''}"
  with assms show "ForeUp_slot (JObj ((k, JNum (Fin 0)) # fs)) = ForeUp_slot (JObj fs)"
    by (auto simp: ForeUp_slot_def nullish_def js_or_def)
next
  assume "k \<in> {''price'', ''green_fee'', ''available_spots'', ''remaining_spots'', ''holes'',
                ''nb_holes''}"
  with assms
  show "Chronogolf_slot_p1 (JObj ((k, JNum (Fin 0)) # fs)) = Chronogolf_slot_p1 (JObj fs)"
    by (auto simp: Chronogolf_slot_p1_def nullish_def js_or_def)
next
  assume "k \<in> {''green_fee'', ''nb_bookable_slots'', ''nb_holes''}"
  with assms
  show "Chronogolf_slot (JObj ((k, JNum (Fin 0)) # fs)) = Chronogolf_slot (JObj fs)"
    by (auto simp: Chronogolf_slot_def nullish_def js_or_def)
next
  show "ForeUp_slot (JObj [(''time'', t), (''available_spots'', JNum (Fin 0)),
                           (''green_fee'', JNum (Fin 0))])
          = Inr \<lparr> time = js_or t JUndefined, price = Num (Fin 50),
                  availableSlots = Num (Fin 4), holes = Num (Fin 18),
                  isHotDeal = JBool False \<rparr>"
    by (simp add: ForeUp_slot_def nullish_def js_or_def)
next
  show "Chronogolf_slot_p1 (JObj [(''start_time'', t), (''available_spots'', JNum (Fin 0)),
                                  (''price'', JNum (Fin 0))])
          = Inr \<lparr> time = js_or t JUndefined, price = Num (Fin 50),
                  availableSlots = Num (Fin 4), holes = Num (Fin 18),
                  isHotDeal = JBool False \<rparr>"
    by (simp add: Chronogolf_slot_p1_def nullish_def js_or_def)
qed

theorem zero_field_counts_as_absent_witness:
  "ForeUp_slot (JObj [(''available_spots'', JNum (Fin 0)), (''time'', JStr ''7:00 AM'')])
     = Inr slot_defaults
   \<and> ForeUp_slot (JObj [(''green_fee'', JNum (Fin 0)), (''time'', JStr ''7:00 AM'')])
     = Inr slot_defaults
   \<and> Chronogolf_slot_p1 (JObj [(''available_spots'', JNum (Fin 0)), (''time'', JStr ''7:00 AM'')])
     = Inr slot_defaults
   \<and> ForeUp_slot (JObj [(''time'', JStr ''7:00 AM''), (''available_spots'', JNum (Fin 0)),
                         (''green_fee'', JNum (Fin 0))])
     = Inr slot_defaults"
proof -
  have a: "map_of [(''time'', JStr ''7:00 AM'')] ''available_spots'' = None"
    and b: "map_of [(''time'', JStr ''7:00 AM'')] ''green_fee'' = None"
    by simp_all
  have d: "ForeUp_slot (JObj [(''time'', JStr ''7:00 AM'')]) = Inr slot_defaults"
    by (simp add: slot_defaults_def ForeUp_slot_def nullish_def js_or_def)
  have d1: "Chronogolf_slot_p1 (JObj [(''time'', JStr ''7:00 AM'')]) = Inr slot_defaults"
    by (simp add: slot_defaults_def Chronogolf_slot_p1_def nullish_def js_or_def)
  show ?thesis
    using zero_field_counts_as_absent [OF a, of "JStr ''7:00 AM''"]
      zero_field_counts_as_absent [OF b, of "JStr ''7:00 AM''"] d d1
    by (simp add: js_or_def slot_defaults_def)
qed

section \<open>Records without a time\<close>

lemma map_slots_total:
  "list_all (\<lambda>x. \<exists>t. f x = Inr t) xs \<Longrightarrow> map_slots f xs = Inr (map (\<lambda>x. projr (f x)) xs)"
  by (induction xs) auto

lemma map_slots_error:
  "map_slots f xs = Inl e \<Longrightarrow> \<exists>x \<in> set xs. f x = Inl e"
  by (induction xs) (auto split: sum.splits)

text \<open>
  The ForeUp normalisation and the Chronogolf normalisation of the second server file
  drop the records without a truthy time and keep all others, provided that no element
  of the batch is undefined or null (such an element makes the \<^verbatim>\<open>map\<close> callback throw).
\<close>

lemma ForeUp_parse_drops_untimed:
  assumes "list_all (\<lambda>x. \<not> nullish x) xs"
  shows "ForeUp_parse (JArr xs) =
           Inr (filter (\<lambda>t. truthy (time t)) (map (\<lambda>x. projr (ForeUp_slot x)) xs))"
proof -
  have "list_all (\<lambda>x. \<exists>t. ForeUp_slot x = Inr t) xs"
    using assms by (induction xs) (simp_all add: ForeUp_slot_total)
  then show ?thesis
    by (simp add: ForeUp_parse_def map_slots_total)
qed

lemma Chronogolf_parse_p1_drops_untimed:
  assumes "list_all (\<lambda>x. \<not> nullish x) xs"
  shows "Chronogolf_parse_p1 (JObj [(''tee_times'', JArr xs)]) =
           Inr (filter (\<lambda>t. truthy (time t)) (map (\<lambda>x. projr (Chronogolf_slot_p1 x)) xs))"
proof -
  have "list_all (\<lambda>x. \<exists>t. Chronogolf_slot_p1 x = Inr t) xs"
    using assms by (induction xs) (simp_all add: Chronogolf_slot_p1_total)
  then show ?thesis
    by (simp add: Chronogolf_parse_p1_def js_or_def map_slots_total)
qed

text \<open>The Chronogolf normalisation of server.js keeps every record.\<close>

lemma Chronogolf_parse_keeps_all:
  assumes "list_all (\<lambda>x. \<not> nullish x) xs"
  shows "Chronogolf_parse (JObj [(''tee_times'', JArr xs)]) =
           Inr (map (\<lambda>x. projr (Chronogolf_slot x)) xs)"
proof -
  have "list_all (\<lambda>x. \<exists>t. Chronogolf_slot x = Inr t) xs"
    using assms by (induction xs) (simp_all add: Chronogolf_slot_total)
  then show ?thesis
    by (simp add: Chronogolf_parse_def nullish_def map_slots_total)
qed


section \<open>The batch handler\<close>

lemma batch_settled_spec:
  "fulfilled_values (fst (batch_settled e s ids date))
     = map entry_of (fst (batch_spec e s (known_courses ids) date))
   \<and> snd (batch_settled e s ids date) = snd (batch_spec e s (known_courses ids) date)"
proof (induction ids arbitrary: s)
  case Nil
  show ?case by simp
next
  case (Cons i ids)
  show ?case
  proof (cases "find_course i")
    case None
    with Cons show ?thesis
      by (simp add: case_prod_beta)
  next
    case (Some c)
    from Cons [of "snd (resolve_p1 e s c date)"] Some show ?thesis
      by (simp add: entry_of_def case_prod_beta)
  qed
qed

lemma batch_spec_courses: "map fst (fst (batch_spec e s cs date)) = cs"
  by (induction cs arbitrary: s) (simp_all add: case_prod_beta)

lemma find_course_id: "find_course i = Some c \<Longrightarrow> course_id c = i"
  by (auto simp: find_course_def find_Some_iff)

lemma known_courses_ids:
  "map course_id (known_courses ids) = filter (\<lambda>i. find_course i \<noteq> None) ids"
  by (induction ids) (auto simp: find_course_id split: option.splits)

text \<open>
  Claim C5. The batch handler of the second server file answers with exactly the
  specification's fan-out over the known courses among the given ids: one entry per
  course, in the order of the ids, holding the slot sequence as the scraper returned it.
  Nothing is filtered, so the entries name all the known ids, whether their slot
  sequences are empty or not.
\<close>

theorem batch_keeps_every_resolved_course:
  assumes "date = (case date_q of None \<Rightarrow> today e | Some d \<Rightarrow> d)"
  shows "batch e s ids date_q =
           (Json \<lparr> data = map entry_of (fst (batch_spec e s (known_courses ids) date)),
                   batch_date = date,
                   totalCourses = length (filter (\<lambda>i. find_course i \<noteq> None) ids) \<rparr>,
            snd (batch_spec e s (known_courses ids) date))
       \<and> map courseId (map entry_of (fst (batch_spec e s (known_courses ids) date)))
           = filter (\<lambda>i. find_course i \<noteq> None) ids"
proof -
  let ?r = "fst (batch_spec e s (known_courses ids) date)"
  have ids: "map courseId (map entry_of ?r) = filter (\<lambda>i. find_course i \<noteq> None) ids"
  proof -
    have "map courseId (map entry_of ?r) = map course_id (map fst ?r)"
      by (simp add: entry_of_def)
    also have "\<dots> = map course_id (known_courses ids)"
      by (simp only: batch_spec_courses)
    finally show ?thesis
      by (simp only: known_courses_ids)
  qed
  have len: "length ?r = length (filter (\<lambda>i. find_course i \<noteq> None) ids)"
    using arg_cong [OF ids, of length] by simp
  have "batch e s ids date_q =
          (Json \<lparr> data = map entry_of ?r, batch_date = date, totalCourses = length ?r \<rparr>,
           snd (batch_spec e s (known_courses ids) date))"
    using batch_settled_spec [of e s ids date] assms
    by (simp add: batch_def Let_def case_prod_beta)
  with len ids show ?thesis by simp
qed

theorem batch_keeps_every_resolved_course_witness:
  "fst (batch (env_at 0 http_down goto_times_out) empty_state
          [''meadowbrook'', ''pebble-beach''] None)
     = Json \<lparr> data = [\<lparr> courseId = ''meadowbrook'', courseName = ''Meadowbrook Golf Course'',
                         teeTimes = [], count = 0 \<rparr>],
               batch_date = june1, totalCourses = 1 \<rparr>"
proof -
  let ?e = "env_at 0 http_down goto_times_out"
  have d: "june1 = (case None of None \<Rightarrow> today ?e | Some d \<Rightarrow> d)"
    by (simp add: env_at_def)
  have f: "course_id meadowbrook = ''meadowbrook''"
    "name meadowbrook = ''Meadowbrook Golf Course''"
    by (simp_all add: meadowbrook_def)
  have r: "resolve_p1 ?e empty_state meadowbrook june1
             = ([], issue (chronogolf_request ''meadowbrook-golf-course'' june1) empty_state)"
    by (simp add: resolve_p1_def createScraper_examples Chronogolf_try_p1_def
        Chronogolf_try_with_def Chronogolf_fetch_with_def locator_examples redis_get_def
        env_at_def empty_state_def catch_empty_def)
  show ?thesis
    using batch_keeps_every_resolved_course [OF d, of empty_state "[''meadowbrook'', ''pebble-beach'']"]
    by (simp add: find_course_examples r entry_of_def f)
qed

section \<open>Pages of the shared browser\<close>

lemma GolfNow_page_closed_on_success:
  assumes "redis_up e" and "browser e"
    and "redis_get e s (cacheKey ''golfnow'' c date) = None"
    and "page e (bookingUrl c @ ''?date='' @ date) = PageContent els"
  shows "open_pages (snd (scrapeTeeTimes GolfNowScraper e s c date)) = open_pages s"
  using assms
  by (simp add: GolfNow_try_def GolfNow_fetch_def GolfNow_render_def catch_empty_def
      redis_setex_def close_page_def issue_def new_page_def Let_def)

lemma GolfNow_page_left_open:
  assumes "redis_up e" and "browser e"
    and "redis_get e s (cacheKey ''golfnow'' c date) = None"
    and "page e (bookingUrl c @ ''?date='' @ date) = GotoRejects
         \<or> page e (bookingUrl c @ ''?date='' @ date) = EvaluateRejects"
  shows "scrapeTeeTimes GolfNowScraper e s c date
           = ([], issue (PageGoto (bookingUrl c @ ''?date='' @ date)) (new_page s))"
    and "open_pages (snd (scrapeTeeTimes GolfNowScraper e s c date)) = Suc (open_pages s)"
  using assms
  by (auto simp: GolfNow_try_def GolfNow_fetch_def GolfNow_render_def catch_empty_def
      issue_def new_page_def Let_def)

text \<open>
  Claim C9 fails on the GolfNowScraper: \<^verbatim>\<open>page.close()\<close> is the statement after
  \<^verbatim>\<open>page.evaluate\<close> inside the \<^verbatim>\<open>try\<close> block, and the \<^verbatim>\<open>catch\<close> block does not close
  the page. When \<^verbatim>\<open>page.goto\<close> times out the scraper returns the empty sequence and
  the page it opened stays open.
\<close>

theorem golfnow_timeout_leaves_page_open:
  "fst (resolve (env_at 0 http_down goto_times_out) empty_state river_oaks june1)
     = []
   \<and> open_pages empty_state = 0
   \<and> open_pages (snd (resolve (env_at 0 http_down goto_times_out) empty_state
                         river_oaks june1)) = 1"
  by (simp add: resolve_def createScraper_examples GolfNow_try_def GolfNow_fetch_def
      GolfNow_render_def catch_empty_def issue_def new_page_def env_at_def empty_state_def
      redis_get_def Let_def)

section \<open>The search handler\<close>

lemma search_courses_order:
  "map fst (fst (search_courses e s cs date maxPrice minSlots)) = cs"
  by (induction cs arbitrary: s) (simp_all add: case_prod_beta)

text \<open>
  For a price, a slot count and a minimum that are finite numbers, and a price limit that
  is absent or a finite number other than 0, the filter keeps a slot exactly when the
  price is within the limit and the slots reach the minimum.
\<close>

lemma search_keeps_iff:
  assumes "price t = Num (Fin p)" and "availableSlots t = Num (Fin a)"
  shows "search_keeps None (Fin n) t \<longleftrightarrow> n \<le> a"
    and "m \<noteq> 0 \<Longrightarrow> search_keeps (Some (Fin m)) (Fin n) t \<longleftrightarrow> p \<le> m \<and> n \<le> a"
  using assms by (auto simp: search_keeps_def)

text \<open>A price limit of 0 is passed over by \<^verbatim>\<open>maxPrice && ...\<close>: no price is checked.\<close>

lemma search_keeps_zero_limit:
  "search_keeps (Some (Fin 0)) minSlots t = search_keeps None minSlots t"
  by (simp add: search_keeps_def)

lemma search_results_nonempty:
  assumes "search_over cs e s date_q maxPrice_q minSlots_q = (Json b, s')"
  shows "list_all (\<lambda>r. snd r \<noteq> []) (results b)"
  using assms
  by (auto simp: search_over_def Let_def case_prod_beta list_all_iff)

lemma maxPrice_of_zero: "maxPrice_of (Some ''0'') = Some (Fin 0)"
  by (simp add: maxPrice_of_def parseFloat_str_def is_space_def unsigned_decimal_def
      is_digit_def dec_value_def radix_value_def hex_val_def digit_val_def exponent_of_def
      scale10_def)


section \<open>The cache\<close>

lemma redis_get_after_del [simp]: "redis_get e (redis_del s k) k = None"
  by (simp add: redis_get_def redis_del_def)


lemma redis_get_after_setex:
  "redis_get e2 (redis_setex e1 s k ttl v) k = (if now e2 < now e1 + ttl then Some v else None)"
  by (simp add: redis_get_def redis_setex_def)



section \<open>Refresh\<close>






section \<open>Failures of the upstream systems\<close>











lemma ForeUp_parse_throws:
  "ForeUp_parse (JObj fs) = Inl TypeError" "ForeUp_parse (JStr t) = Inl TypeError"
  "ForeUp_parse JNull = Inl TypeError" "ForeUp_parse (JArr (JNull # xs)) = Inl TypeError"
  by (simp_all add: ForeUp_parse_def ForeUp_slot_def nullish_def)



section \<open>Two calls within the life of a cache entry\<close>





subsection \<open>Results that survive the JSON form unchanged\<close>












end
